theory Spec2Isabelle
  imports Main
begin

section \<open>Data model of \<^verbatim>\<open>pkg/main.go\<close>\<close>

text \<open>
  Go strings are byte sequences, modelled as \<^typ>\<open>string\<close>. A pointer that the code
  tests against \<^verbatim>\<open>nil\<close> is an \<^typ>\<open>'a option\<close>. A slice is a list and a Go map is a
  partial function; a \<^verbatim>\<open>nil\<close> slice or map is the empty one: the code only ranges over
  them, takes their length or stores into maps it has made, and for those operations Go
  does not tell \<^verbatim>\<open>nil\<close> from empty (the \<^verbatim>\<open>!= nil\<close> guards placed before the loops are
  subsumed by the loop running zero times).

  Several structs share field names (\<^verbatim>\<open>Name\<close>, \<^verbatim>\<open>Kind\<close>, \<^verbatim>\<open>Description\<close>, \<^verbatim>\<open>Type\<close>).
  The fields of \<^verbatim>\<open>JSONSchema6\<close>, \<^verbatim>\<open>IntrospectionTypeRef\<close> and \<^verbatim>\<open>Options\<close> keep their names;
  the fields of the other input structs carry the struct as a prefix.
\<close>

type_synonym IDTypeMapping = string

definition IDTypeString :: IDTypeMapping where "IDTypeString = ''string''"
definition IDTypeNumber :: IDTypeMapping where "IDTypeNumber = ''number''"
definition IDTypeBoth :: IDTypeMapping where "IDTypeBoth = ''both''"
definition IDTypeDefaultMode :: IDTypeMapping where "IDTypeDefaultMode = IDTypeString"

record Options =
  IgnoreInternals :: bool
  NullableArrayItems :: bool
  IDTypeMapping :: IDTypeMapping

definition DefaultOptions :: Options where
  "DefaultOptions =
     \<lparr>IgnoreInternals = True, NullableArrayItems = False, IDTypeMapping = IDTypeDefaultMode\<rparr>"

text \<open>
  The field \<^verbatim>\<open>Type interface{}\<close> holds nothing, a string or a slice of strings.
  \<^verbatim>\<open>Default interface{}\<close> holds whatever \<^verbatim>\<open>json.Unmarshal\<close> decodes; the decoded values
  are the type parameter \<open>'j\<close>.
\<close>

datatype TypeValue = TypeString string | TypeStrings "string list"

datatype 'j JSONSchema6 = JSONSchema6
  (Schema: string)
  (Type: "TypeValue option")
  (Properties: "string \<Rightarrow> 'j JSONSchema6 option")
  (Items: "'j JSONSchema6 option")
  (Ref: string)
  (Required: "string list")
  (Definitions: "string \<Rightarrow> 'j JSONSchema6 option")
  (AnyOf: "'j JSONSchema6 list")
  (OneOf: "'j JSONSchema6 list")
  (Title: string)
  (Description: string)
  (Default: "'j option")
  (Enum: "string list")

text \<open>The zero value \<^verbatim>\<open>JSONSchema6{}\<close>, and assignment to one field of a node.\<close>

definition zeroSchema :: "'j JSONSchema6" where
  "zeroSchema = JSONSchema6 [] None Map.empty None [] [] Map.empty [] [] [] [] None []"

named_theorems set_defs

definition set_Schema :: "string \<Rightarrow> 'j JSONSchema6 \<Rightarrow> 'j JSONSchema6" where
  [set_defs]: "set_Schema v n = JSONSchema6 v (Type n) (Properties n) (Items n) (Ref n)
     (Required n) (Definitions n) (AnyOf n) (OneOf n) (Title n) (Description n) (Default n)
     (Enum n)"

definition set_Type :: "TypeValue option \<Rightarrow> 'j JSONSchema6 \<Rightarrow> 'j JSONSchema6" where
  [set_defs]: "set_Type v n = JSONSchema6 (Schema n) v (Properties n) (Items n) (Ref n)
     (Required n) (Definitions n) (AnyOf n) (OneOf n) (Title n) (Description n) (Default n)
     (Enum n)"

definition set_Properties ::
  "(string \<Rightarrow> 'j JSONSchema6 option) \<Rightarrow> 'j JSONSchema6 \<Rightarrow> 'j JSONSchema6" where
  [set_defs]: "set_Properties v n = JSONSchema6 (Schema n) (Type n) v (Items n) (Ref n)
     (Required n) (Definitions n) (AnyOf n) (OneOf n) (Title n) (Description n) (Default n)
     (Enum n)"

definition set_Items :: "'j JSONSchema6 option \<Rightarrow> 'j JSONSchema6 \<Rightarrow> 'j JSONSchema6" where
  [set_defs]: "set_Items v n = JSONSchema6 (Schema n) (Type n) (Properties n) v (Ref n)
     (Required n) (Definitions n) (AnyOf n) (OneOf n) (Title n) (Description n) (Default n)
     (Enum n)"

definition set_Ref :: "string \<Rightarrow> 'j JSONSchema6 \<Rightarrow> 'j JSONSchema6" where
  [set_defs]: "set_Ref v n = JSONSchema6 (Schema n) (Type n) (Properties n) (Items n) v
     (Required n) (Definitions n) (AnyOf n) (OneOf n) (Title n) (Description n) (Default n)
     (Enum n)"

definition set_Required :: "string list \<Rightarrow> 'j JSONSchema6 \<Rightarrow> 'j JSONSchema6" where
  [set_defs]: "set_Required v n = JSONSchema6 (Schema n) (Type n) (Properties n) (Items n)
     (Ref n) v (Definitions n) (AnyOf n) (OneOf n) (Title n) (Description n) (Default n)
     (Enum n)"

definition set_Definitions ::
  "(string \<Rightarrow> 'j JSONSchema6 option) \<Rightarrow> 'j JSONSchema6 \<Rightarrow> 'j JSONSchema6" where
  [set_defs]: "set_Definitions v n = JSONSchema6 (Schema n) (Type n) (Properties n) (Items n)
     (Ref n) (Required n) v (AnyOf n) (OneOf n) (Title n) (Description n) (Default n)
     (Enum n)"

definition set_AnyOf :: "'j JSONSchema6 list \<Rightarrow> 'j JSONSchema6 \<Rightarrow> 'j JSONSchema6" where
  [set_defs]: "set_AnyOf v n = JSONSchema6 (Schema n) (Type n) (Properties n) (Items n)
     (Ref n) (Required n) (Definitions n) v (OneOf n) (Title n) (Description n) (Default n)
     (Enum n)"

definition set_OneOf :: "'j JSONSchema6 list \<Rightarrow> 'j JSONSchema6 \<Rightarrow> 'j JSONSchema6" where
  [set_defs]: "set_OneOf v n = JSONSchema6 (Schema n) (Type n) (Properties n) (Items n)
     (Ref n) (Required n) (Definitions n) (AnyOf n) v (Title n) (Description n) (Default n)
     (Enum n)"

definition set_Title :: "string \<Rightarrow> 'j JSONSchema6 \<Rightarrow> 'j JSONSchema6" where
  [set_defs]: "set_Title v n = JSONSchema6 (Schema n) (Type n) (Properties n) (Items n)
     (Ref n) (Required n) (Definitions n) (AnyOf n) (OneOf n) v (Description n) (Default n)
     (Enum n)"

definition set_Description :: "string \<Rightarrow> 'j JSONSchema6 \<Rightarrow> 'j JSONSchema6" where
  [set_defs]: "set_Description v n = JSONSchema6 (Schema n) (Type n) (Properties n) (Items n)
     (Ref n) (Required n) (Definitions n) (AnyOf n) (OneOf n) (Title n) v (Default n)
     (Enum n)"

definition set_Default :: "'j option \<Rightarrow> 'j JSONSchema6 \<Rightarrow> 'j JSONSchema6" where
  [set_defs]: "set_Default v n = JSONSchema6 (Schema n) (Type n) (Properties n) (Items n)
     (Ref n) (Required n) (Definitions n) (AnyOf n) (OneOf n) (Title n) (Description n) v
     (Enum n)"

definition set_Enum :: "string list \<Rightarrow> 'j JSONSchema6 \<Rightarrow> 'j JSONSchema6" where
  [set_defs]: "set_Enum v n = JSONSchema6 (Schema n) (Type n) (Properties n) (Items n)
     (Ref n) (Required n) (Definitions n) (AnyOf n) (OneOf n) (Title n) (Description n)
     (Default n) v"

subsection \<open>The introspection document\<close>

record TypeRef =
  ref_Name :: string

datatype IntrospectionTypeRef = IntrospectionTypeRef
  (Kind: string)
  (Name: "string option")
  (OfType: "IntrospectionTypeRef option")

record IntrospectionEnum =
  enum_Name :: string
  enum_Description :: string

record IntrospectionArg =
  arg_Name :: string
  arg_Description :: string
  arg_Type :: IntrospectionTypeRef
  arg_DefaultValue :: "string option"

record IntrospectionInput =
  input_Name :: string
  input_Description :: string
  input_Type :: IntrospectionTypeRef
  input_DefaultValue :: "string option"

record IntrospectionField =
  field_Name :: string
  field_Description :: string
  field_Args :: "IntrospectionArg list"
  field_Type :: IntrospectionTypeRef

datatype IntrospectionType = IntrospectionType
  (type_Kind: string)
  (type_Name: string)
  (type_Description: string)
  (type_Fields: "IntrospectionField list")
  (type_InputFields: "IntrospectionInput list")
  (type_Interfaces: "TypeRef list")
  (type_EnumValues: "IntrospectionEnum list")
  (type_PossibleTypes: "IntrospectionType list")

record IntrospectionSchema =
  QueryType :: "TypeRef option"
  MutationType :: "TypeRef option"
  Types :: "IntrospectionType list"

record IntrospectionQuery =
  query_Schema :: IntrospectionSchema

text \<open>
  Errors as values. The conversion code itself raises none; the command line adds its
  own (\<^verbatim>\<open>fmt.Errorf\<close>), and dereferencing a \<^verbatim>\<open>nil\<close> pointer panics.
\<close>

datatype error = Error string | NilDereference

text \<open>
  \<^verbatim>\<open>json.Unmarshal\<close> into an \<^verbatim>\<open>interface{}\<close> belongs to the Go standard library and is
  taken as a parameter: it fails, or decodes a value (\<open>None\<close> for the literal \<^verbatim>\<open>null\<close>,
  which leaves the interface \<^verbatim>\<open>nil\<close>).
\<close>

type_synonym 'j unmarshal = "string \<Rightarrow> error + 'j option"

section \<open>Scalar mapper\<close>

definition ID_description :: string where
  \<open>ID_description = ''The `ID` scalar type represents a unique identifier, often used to refetch an object or as key for a cache. The ID type appears in a JSON response as a String; however, it is not intended to be human-readable. When expected as an input type, any string (such as `"4"`) or integer (such as `4`) input value will be accepted as an ID.''\<close>

definition String_description :: string where
  \<open>String_description = ''The `String` scalar type represents textual data, represented as UTF-8 character sequences. The String type is most often used by GraphQL to represent free-form human-readable text.''\<close>

definition Boolean_description :: string where
  \<open>Boolean_description = ''The `Boolean` scalar type represents `true` or `false`.''\<close>

definition processScalar :: "string \<Rightarrow> IDTypeMapping \<Rightarrow> 'j JSONSchema6" where
  "processScalar name idMapping =
     (let schema = set_Title name zeroSchema in
      if name = ''ID'' then
        (let schema = set_Description ID_description schema in
         if idMapping = IDTypeNumber then set_Type (Some (TypeString ''number'')) schema
         else if idMapping = IDTypeBoth then
           set_Type (Some (TypeStrings [''string'', ''number''])) schema
         else set_Type (Some (TypeString ''string'')) schema)
      else if name = ''String'' then
        set_Description String_description (set_Type (Some (TypeString ''string'')) schema)
      else if name = ''Int'' \<or> name = ''Float'' then
        set_Type (Some (TypeString ''number'')) schema
      else if name = ''Boolean'' then
        set_Description Boolean_description (set_Type (Some (TypeString ''boolean'')) schema)
      else schema)"

section \<open>Type-reference resolver\<close>

definition isRequired :: "IntrospectionTypeRef \<Rightarrow> bool" where
  "isRequired typeRef = (Kind typeRef = ''NON_NULL'')"

fun processTypeRef :: "IntrospectionTypeRef \<Rightarrow> Options \<Rightarrow> 'j JSONSchema6" where
  "processTypeRef (IntrospectionTypeRef kind name ofType) opts =
     (if kind = ''NON_NULL'' then
        (case ofType of
           Some inner \<Rightarrow> processTypeRef inner opts
         | None \<Rightarrow> zeroSchema)
      else if kind = ''LIST'' then
        (case ofType of
           Some inner \<Rightarrow>
             (let items = processTypeRef inner opts;
                  schema = set_Items (Some items)
                             (set_Type (Some (TypeString ''array'')) zeroSchema)
              in if NullableArrayItems opts \<and> \<not> isRequired inner then
                   set_Items
                     (Some (set_AnyOf
                        [items, set_Type (Some (TypeString ''null'')) zeroSchema]
                        zeroSchema))
                     schema
                 else schema)
         | None \<Rightarrow> set_Type (Some (TypeString ''array'')) zeroSchema)
      else if kind = ''SCALAR'' then
        (case name of
           Some n \<Rightarrow> processScalar n (IDTypeMapping opts)
         | None \<Rightarrow> zeroSchema)
      else
        (case name of
           Some n \<Rightarrow> set_Ref (''#/definitions/'' @ n) zeroSchema
         | None \<Rightarrow> zeroSchema))"

section \<open>Type body builder\<close>

definition processArg :: "'j unmarshal \<Rightarrow> IntrospectionArg \<Rightarrow> Options \<Rightarrow> 'j JSONSchema6" where
  "processArg unm arg opts =
     (let schema = processTypeRef (arg_Type arg) opts;
          schema = set_Description (arg_Description arg) schema
      in case arg_DefaultValue arg of
           Some text \<Rightarrow>
             (case unm text of
                Inr defaultValue \<Rightarrow> set_Default defaultValue schema
              | Inl err \<Rightarrow> schema)
         | None \<Rightarrow> schema)"

definition processInputValue ::
  "'j unmarshal \<Rightarrow> IntrospectionInput \<Rightarrow> Options \<Rightarrow> 'j JSONSchema6" where
  "processInputValue unm input opts =
     (let schema = processTypeRef (input_Type input) opts;
          schema = set_Description (input_Description input) schema
      in case input_DefaultValue input of
           Some text \<Rightarrow>
             (case unm text of
                Inr defaultValue \<Rightarrow> set_Default defaultValue schema
              | Inl err \<Rightarrow> schema)
         | None \<Rightarrow> schema)"

text \<open>
  The loop over \<^verbatim>\<open>field.Args\<close>; its state is the \<^verbatim>\<open>args\<close> node and the \<^verbatim>\<open>required\<close>
  slice.
\<close>

fun argsLoop ::
  "'j unmarshal \<Rightarrow> Options \<Rightarrow> IntrospectionArg list \<Rightarrow> 'j JSONSchema6 \<times> string list \<Rightarrow>
     'j JSONSchema6 \<times> string list" where
  "argsLoop unm opts [] (args, required) = (args, required)"
| "argsLoop unm opts (arg # rest) (args, required) =
     argsLoop unm opts rest
       (set_Properties ((Properties args)(arg_Name arg \<mapsto> processArg unm arg opts)) args,
        if isRequired (arg_Type arg) then required @ [arg_Name arg] else required)"

definition processField ::
  "'j unmarshal \<Rightarrow> IntrospectionField \<Rightarrow> Options \<Rightarrow> 'j JSONSchema6" where
  "processField unm field opts =
     (let schema = set_Description (field_Description field)
                     (set_Properties Map.empty
                        (set_Type (Some (TypeString ''object'')) zeroSchema));
          schema = set_Properties
                     ((Properties schema)(''return'' \<mapsto> processTypeRef (field_Type field) opts))
                     schema;
          args = set_Properties Map.empty (set_Type (Some (TypeString ''object'')) zeroSchema);
          (args, required) = argsLoop unm opts (field_Args field) (args, []);
          args = (if length required > 0 then set_Required required args else args)
      in set_Properties ((Properties schema)(''arguments'' \<mapsto> args)) schema)"

text \<open>The four loops of \<^verbatim>\<open>processType\<close>, one per kind that has members.\<close>

fun fieldsLoop ::
  "'j unmarshal \<Rightarrow> Options \<Rightarrow> IntrospectionField list \<Rightarrow> 'j JSONSchema6 \<times> string list \<Rightarrow>
     'j JSONSchema6 \<times> string list" where
  "fieldsLoop unm opts [] (schema, required) = (schema, required)"
| "fieldsLoop unm opts (field # rest) (schema, required) =
     fieldsLoop unm opts rest
       (set_Properties
          ((Properties schema)(field_Name field \<mapsto> processField unm field opts)) schema,
        if isRequired (field_Type field) then required @ [field_Name field] else required)"

fun inputFieldsLoop ::
  "'j unmarshal \<Rightarrow> Options \<Rightarrow> IntrospectionInput list \<Rightarrow> 'j JSONSchema6 \<times> string list \<Rightarrow>
     'j JSONSchema6 \<times> string list" where
  "inputFieldsLoop unm opts [] (schema, required) = (schema, required)"
| "inputFieldsLoop unm opts (field # rest) (schema, required) =
     inputFieldsLoop unm opts rest
       (set_Properties
          ((Properties schema)(input_Name field \<mapsto> processInputValue unm field opts)) schema,
        if isRequired (input_Type field) then required @ [input_Name field] else required)"

fun enumValuesLoop :: "IntrospectionEnum list \<Rightarrow> 'j JSONSchema6 list \<Rightarrow> 'j JSONSchema6 list" where
  "enumValuesLoop [] anyOf = anyOf"
| "enumValuesLoop (enumValue # rest) anyOf =
     enumValuesLoop rest
       (anyOf @
        [set_Description (enum_Description enumValue)
           (set_Title (enum_Description enumValue)
              (set_Enum [enum_Name enumValue] zeroSchema))])"

fun possibleTypesLoop :: "IntrospectionType list \<Rightarrow> 'j JSONSchema6 list \<Rightarrow> 'j JSONSchema6 list" where
  "possibleTypesLoop [] oneOf = oneOf"
| "possibleTypesLoop (possibleType # rest) oneOf =
     possibleTypesLoop rest
       (oneOf @ [set_Ref (''#/definitions/'' @ type_Name possibleType) zeroSchema])"

definition processType :: "'j unmarshal \<Rightarrow> IntrospectionType \<Rightarrow> Options \<Rightarrow> 'j JSONSchema6" where
  "processType unm t opts =
     (let schema = set_Description (type_Description t)
                     (set_Properties Map.empty
                        (set_Type (Some (TypeString ''object'')) zeroSchema))
      in if type_Kind t = ''OBJECT'' \<or> type_Kind t = ''INTERFACE'' then
           (let (schema, required) = fieldsLoop unm opts (type_Fields t) (schema, [])
            in if length required > 0 then set_Required required schema else schema)
         else if type_Kind t = ''INPUT_OBJECT'' then
           (let (schema, required) = inputFieldsLoop unm opts (type_InputFields t) (schema, [])
            in if length required > 0 then set_Required required schema else schema)
         else if type_Kind t = ''ENUM'' then
           (let schema = set_Type (Some (TypeString ''string'')) schema;
                anyOf = enumValuesLoop (type_EnumValues t) []
            in set_AnyOf anyOf schema)
         else if type_Kind t = ''UNION'' then
           (let schema = set_Properties ((Properties schema)(''type'' := None)) schema;
                oneOf = possibleTypesLoop (type_PossibleTypes t) []
            in set_OneOf oneOf schema)
         else schema)"

section \<open>Schema assembler\<close>

definition isRootType :: "string \<Rightarrow> bool" where
  "isRootType name = (name = ''Query'' \<or> name = ''Mutation'')"

fun findType :: "IntrospectionType list \<Rightarrow> string \<Rightarrow> IntrospectionType option" where
  "findType [] name = None"
| "findType (t # rest) name = (if type_Name t = name then Some t else findType rest name)"

fun filterLoop :: "IntrospectionType list \<Rightarrow> IntrospectionType list \<Rightarrow> IntrospectionType list" where
  "filterLoop [] filtered = filtered"
| "filterLoop (t # rest) filtered =
     filterLoop rest
       (if length (type_Name t) < 2 \<or> take 2 (type_Name t) \<noteq> ''__'' then filtered @ [t]
        else filtered)"

definition filterTypes :: "IntrospectionType list \<Rightarrow> bool \<Rightarrow> IntrospectionType list" where
  "filterTypes types ignoreInternals =
     (if \<not> ignoreInternals then types else filterLoop types [])"

fun definitionsLoop ::
  "'j unmarshal \<Rightarrow> Options \<Rightarrow> IntrospectionType list \<Rightarrow> 'j JSONSchema6 \<Rightarrow> 'j JSONSchema6" where
  "definitionsLoop unm opts [] schema = schema"
| "definitionsLoop unm opts (t # rest) schema =
     definitionsLoop unm opts rest
       (if \<not> isRootType (type_Name t) then
          set_Definitions ((Definitions schema)(type_Name t \<mapsto> processType unm t opts)) schema
        else schema)"

text \<open>
  \<^verbatim>\<open>FromIntrospectionQuery\<close> returns a schema and an error; the pair is a sum here, \<open>Inr\<close>
  the schema returned with a \<^verbatim>\<open>nil\<close> error.
\<close>

definition FromIntrospectionQuery ::
  "'j unmarshal \<Rightarrow> IntrospectionQuery \<Rightarrow> Options option \<Rightarrow> error + 'j JSONSchema6" where
  "FromIntrospectionQuery unm introspection opts_ptr =
     (let opts = (case opts_ptr of None \<Rightarrow> DefaultOptions | Some given \<Rightarrow> given);
          schema = set_Definitions Map.empty
                     (set_Properties Map.empty
                        (set_Schema ''http://json-schema.org/draft-06/schema#'' zeroSchema));
          types = Types (query_Schema introspection);
          schema =
            (case QueryType (query_Schema introspection) of
               Some root \<Rightarrow>
                 (case findType types (ref_Name root) of
                    Some queryType \<Rightarrow>
                      set_Properties
                        ((Properties schema)(''Query'' \<mapsto> processType unm queryType opts))
                        schema
                  | None \<Rightarrow> schema)
             | None \<Rightarrow> schema);
          schema =
            (case MutationType (query_Schema introspection) of
               Some root \<Rightarrow>
                 (case findType types (ref_Name root) of
                    Some mutationType \<Rightarrow>
                      set_Properties
                        ((Properties schema)(''Mutation'' \<mapsto> processType unm mutationType opts))
                        schema
                  | None \<Rightarrow> schema)
             | None \<Rightarrow> schema);
          filteredTypes = filterTypes types (IgnoreInternals opts)
      in Inr (definitionsLoop unm opts filteredTypes schema))"

section \<open>The command line's validation of \<^verbatim>\<open>--id-type\<close>\<close>

fun validMappingsLoop :: "IDTypeMapping \<Rightarrow> IDTypeMapping list \<Rightarrow> bool" where
  "validMappingsLoop mapping [] = False"
| "validMappingsLoop mapping (valid # rest) =
     (if mapping = valid then True else validMappingsLoop mapping rest)"

definition IsValidIDTypeMapping :: "IDTypeMapping \<Rightarrow> bool" where
  "IsValidIDTypeMapping mapping = validMappingsLoop mapping [''string'', ''number'', ''both'']"

fun error_text :: "error \<Rightarrow> string" where
  "error_text (Error msg) = msg"
| "error_text NilDereference = ''invalid memory address or nil pointer dereference''"

text \<open>
  \<^verbatim>\<open>runConversion\<close> of \<^verbatim>\<open>cmd/main.go\<close>, from the point where the input has been read
  (lines 339 to 355). What the three input branches before it produced is the parameter
  \<open>acquired\<close>: an error, which \<^verbatim>\<open>runConversion\<close> returns at once, or the pointer
  \<^verbatim>\<open>introspection\<close>, which is \<^verbatim>\<open>nil\<close> when the input file holds the literal \<^verbatim>\<open>null\<close>. The
  three flag values read through viper are parameters too. \<open>Inr\<close> is the schema handed
  on to marshalling and output, which are not modelled.
\<close>

definition runConversion ::
  "'j unmarshal \<Rightarrow> error + IntrospectionQuery option \<Rightarrow> bool \<Rightarrow> bool \<Rightarrow> string \<Rightarrow>
     error + 'j JSONSchema6" where
  "runConversion unm acquired ignoreInternals nullableArrayItems idType =
     (case acquired of
        Inl err \<Rightarrow> Inl err
      | Inr introspection \<Rightarrow>
          (let idMapping = idType in
           if \<not> IsValidIDTypeMapping idMapping then
             Inl (Error (''invalid id-type mapping: '' @ idMapping))
           else
             (let opts = \<lparr>IgnoreInternals = ignoreInternals,
                          NullableArrayItems = nullableArrayItems,
                          IDTypeMapping = idMapping\<rparr>
              in case introspection of
                   None \<Rightarrow> Inl NilDereference
                 | Some document \<Rightarrow>
                     (case FromIntrospectionQuery unm document (Some opts) of
                        Inl err \<Rightarrow>
                          Inl (Error (''error converting to JSON Schema: '' @ error_text err))
                      | Inr schema \<Rightarrow> Inr schema))))"

section \<open>Reading a result, and the documents of the examples\<close>

text \<open>
  \<open>returned\<close> is the schema of a call that returned no error; \<open>property\<close> and
  \<open>definition_at\<close> follow one step of a path such as
  \<^verbatim>\<open>properties.Query.properties.ping\<close> or \<^verbatim>\<open>definitions.Color\<close>.
\<close>

definition returned :: "error + 'a \<Rightarrow> 'a option" where
  "returned r = (case r of Inl err \<Rightarrow> None | Inr v \<Rightarrow> Some v)"

definition property :: "string \<Rightarrow> 'j JSONSchema6 option \<Rightarrow> 'j JSONSchema6 option" where
  "property k node = (case node of None \<Rightarrow> None | Some n \<Rightarrow> Properties n k)"

definition definition_at :: "string \<Rightarrow> 'j JSONSchema6 option \<Rightarrow> 'j JSONSchema6 option" where
  "definition_at k node = (case node of None \<Rightarrow> None | Some n \<Rightarrow> Definitions n k)"

text \<open>
  An instance of the decoder for the examples below. None of their documents carries a
  default value, so the decoder is never called on them.
\<close>

definition rejectAll :: "'j unmarshal" where
  "rejectAll text = Inl (Error ''invalid character'')"

text \<open>The scenario document: the root \<^verbatim>\<open>Query\<close> with the one field \<^verbatim>\<open>ping: Boolean!\<close>.\<close>

definition ping_document :: IntrospectionQuery where
  "ping_document =
     \<lparr>query_Schema =
        \<lparr>QueryType = Some \<lparr>ref_Name = ''Query''\<rparr>,
         MutationType = None,
         Types =
           [IntrospectionType ''OBJECT'' ''Query'' []
              [\<lparr>field_Name = ''ping'', field_Description = [], field_Args = [],
                field_Type = IntrospectionTypeRef ''NON_NULL'' None
                               (Some (IntrospectionTypeRef ''SCALAR'' (Some ''Boolean'') None))\<rparr>]
              [] [] [] []]\<rparr>\<rparr>"

text \<open>The root \<^verbatim>\<open>Query\<close> with the one field \<^verbatim>\<open>id: ID\<close>.\<close>

definition id_document :: IntrospectionQuery where
  "id_document =
     \<lparr>query_Schema =
        \<lparr>QueryType = Some \<lparr>ref_Name = ''Query''\<rparr>,
         MutationType = None,
         Types =
           [IntrospectionType ''OBJECT'' ''Query'' []
              [\<lparr>field_Name = ''id'', field_Description = [], field_Args = [],
                field_Type = IntrospectionTypeRef ''SCALAR'' (Some ''ID'') None\<rparr>]
              [] [] [] []]\<rparr>\<rparr>"

text \<open>A document whose declared query root is not called \<^verbatim>\<open>Query\<close>.\<close>

definition root_object :: IntrospectionType where
  "root_object = IntrospectionType ''OBJECT'' ''RootQuery'' [] [] [] [] [] []"

definition root_document :: IntrospectionQuery where
  "root_document =
     \<lparr>query_Schema =
        \<lparr>QueryType = Some \<lparr>ref_Name = ''RootQuery''\<rparr>,
         MutationType = None,
         Types = [root_object]\<rparr>\<rparr>"

text \<open>A root, an internal type and an enum.\<close>

definition color_enum :: IntrospectionType where
  "color_enum =
     IntrospectionType ''ENUM'' ''Color'' [] [] [] []
       [\<lparr>enum_Name = ''RED'', enum_Description = ''warm''\<rparr>,
        \<lparr>enum_Name = ''BLUE'', enum_Description = ''cold''\<rparr>] []"

definition palette_document :: IntrospectionQuery where
  "palette_document =
     \<lparr>query_Schema =
        \<lparr>QueryType = Some \<lparr>ref_Name = ''Query''\<rparr>,
         MutationType = None,
         Types =
           [IntrospectionType ''OBJECT'' ''Query'' [] [] [] [] [] [],
            IntrospectionType ''OBJECT'' ''__Schema'' [] [] [] [] [] [],
            color_enum]\<rparr>\<rparr>"

text \<open>A union of two object types.\<close>

definition search_union :: IntrospectionType where
  "search_union =
     IntrospectionType ''UNION'' ''SearchResult'' [] [] [] [] []
       [IntrospectionType ''OBJECT'' ''Book'' [] [] [] [] [] [],
        IntrospectionType ''OBJECT'' ''Author'' [] [] [] [] [] []]"

text \<open>The references \<^verbatim>\<open>[String]\<close>, \<^verbatim>\<open>[String]!\<close> and \<^verbatim>\<open>[String!]\<close>.\<close>

definition string_ref :: IntrospectionTypeRef where
  "string_ref = IntrospectionTypeRef ''SCALAR'' (Some ''String'') None"

definition list_of_string :: IntrospectionTypeRef where
  "list_of_string = IntrospectionTypeRef ''LIST'' None (Some string_ref)"

definition non_null_list_of_string :: IntrospectionTypeRef where
  "non_null_list_of_string = IntrospectionTypeRef ''NON_NULL'' None (Some list_of_string)"

definition non_null_string :: IntrospectionTypeRef where
  "non_null_string = IntrospectionTypeRef ''NON_NULL'' None (Some string_ref)"

definition list_of_non_null_string :: IntrospectionTypeRef where
  "list_of_non_null_string = IntrospectionTypeRef ''LIST'' None (Some non_null_string)"

definition nullableItems :: Options where
  "nullableItems =
     \<lparr>IgnoreInternals = True, NullableArrayItems = True, IDTypeMapping = ''string''\<rparr>"

section \<open>Auxiliary facts\<close>

lemmas eval_defs =
  FromIntrospectionQuery_def processType_def processField_def processScalar_def
  filterTypes_def isRootType_def isRequired_def DefaultOptions_def IDTypeDefaultMode_def
  IDTypeString_def IDTypeNumber_def IDTypeBoth_def Boolean_description_def
  returned_def property_def definition_at_def Let_def set_defs zeroSchema_def

text \<open>\<^verbatim>\<open>processTypeRef\<close> in terms of the fields of the reference.\<close>

lemma processTypeRef_unfold:
  "processTypeRef r opts =
     (if Kind r = ''NON_NULL'' then
        (case OfType r of Some inner \<Rightarrow> processTypeRef inner opts | None \<Rightarrow> zeroSchema)
      else if Kind r = ''LIST'' then
        (case OfType r of
           Some inner \<Rightarrow>
             set_Items
               (Some (if NullableArrayItems opts \<and> \<not> isRequired inner then
                        set_AnyOf [processTypeRef inner opts,
                                   set_Type (Some (TypeString ''null'')) zeroSchema] zeroSchema
                      else processTypeRef inner opts))
               (set_Type (Some (TypeString ''array'')) zeroSchema)
         | None \<Rightarrow> set_Type (Some (TypeString ''array'')) zeroSchema)
      else if Kind r = ''SCALAR'' then
        (case Name r of Some n \<Rightarrow> processScalar n (IDTypeMapping opts) | None \<Rightarrow> zeroSchema)
      else
        (case Name r of Some n \<Rightarrow> set_Ref (''#/definitions/'' @ n) zeroSchema
         | None \<Rightarrow> zeroSchema))"
  by (cases r) (simp add: Let_def set_defs split: option.split)

text \<open>A node is larger than every member of its \<^verbatim>\<open>anyOf\<close>, so it is none of them.\<close>

lemma AnyOf_smaller: "x \<in> set (AnyOf n) \<Longrightarrow> size x < size n"
proof (cases n)
  case (JSONSchema6 x1 x2 x3 x4 x5 x6 x7 x8 x9 x10 x11 x12 x13)
  assume "x \<in> set (AnyOf n)"
  with JSONSchema6 have "x \<in> set x8" by simp
  then have "size x \<le> size_list size x8"
    by (rule size_list_estimation') simp
  with JSONSchema6 show ?thesis by simp
qed

lemma not_own_AnyOf: "AnyOf n \<noteq> n # xs"
  using AnyOf_smaller [of n n] by auto

text \<open>The loops, in closed form.\<close>

lemma filterLoop_eq:
  "filterLoop ts filtered = filtered @ filter (\<lambda>t. take 2 (type_Name t) \<noteq> ''__'') ts"
proof (induction ts arbitrary: filtered)
  case Nil
  show ?case by simp
next
  case (Cons t rest)
  have "(length (type_Name t) < 2 \<or> take 2 (type_Name t) \<noteq> ''__'')
          = (take 2 (type_Name t) \<noteq> ''__'')"
    by (auto dest: arg_cong [where f = length])
  with Cons show ?case by simp
qed

lemma filterTypes_eq:
  "filterTypes ts ignoreInternals =
     filter (\<lambda>t. \<not> (ignoreInternals \<and> take 2 (type_Name t) = ''__'')) ts"
  by (simp add: filterTypes_def filterLoop_eq)

lemma definitionsLoop_Definitions:
  "Definitions (definitionsLoop unm opts ts schema) k =
     (case filter (\<lambda>t. type_Name t = k \<and> \<not> isRootType k) ts of
        [] \<Rightarrow> Definitions schema k
      | x # xs \<Rightarrow> Some (processType unm (last (x # xs)) opts))"
proof (induction ts arbitrary: schema)
  case Nil
  show ?case by simp
next
  case (Cons t rest)
  show ?case
    by (simp add: Cons.IH set_Definitions_def split: list.split)
qed

lemma definitionsLoop_other:
  "Schema (definitionsLoop unm opts ts schema) = Schema schema"
  "Properties (definitionsLoop unm opts ts schema) = Properties schema"
  by (induction ts arbitrary: schema) (simp_all add: set_Definitions_def)

lemma FromIntrospectionQuery_Definitions:
  "\<exists>schema. FromIntrospectionQuery unm q opts_ptr = Inr schema \<and>
     Definitions schema =
       Definitions (definitionsLoop unm (case opts_ptr of None \<Rightarrow> DefaultOptions | Some g \<Rightarrow> g)
         (filterTypes (Types (query_Schema q))
            (IgnoreInternals (case opts_ptr of None \<Rightarrow> DefaultOptions | Some g \<Rightarrow> g)))
         zeroSchema)"
  by (auto simp: FromIntrospectionQuery_def Let_def definitionsLoop_Definitions set_defs
      zeroSchema_def fun_eq_iff split: option.split list.split)

lemma enumValuesLoop_eq:
  "enumValuesLoop vs anyOf =
     anyOf @ map (\<lambda>v. set_Description (enum_Description v)
                        (set_Title (enum_Description v) (set_Enum [enum_Name v] zeroSchema))) vs"
  by (induction vs arbitrary: anyOf) simp_all

lemma possibleTypesLoop_eq:
  "possibleTypesLoop ps oneOf =
     oneOf @ map (\<lambda>p. set_Ref (''#/definitions/'' @ type_Name p) zeroSchema) ps"
  by (induction ps arbitrary: oneOf) simp_all

lemma processType_ENUM:
  "type_Kind t = ''ENUM'' \<Longrightarrow>
   processType unm t opts =
     set_AnyOf (enumValuesLoop (type_EnumValues t) [])
       (set_Type (Some (TypeString ''string''))
          (set_Description (type_Description t)
             (set_Properties Map.empty (set_Type (Some (TypeString ''object'')) zeroSchema))))"
  by (simp add: processType_def Let_def)

lemma processType_UNION:
  "type_Kind t = ''UNION'' \<Longrightarrow>
   processType unm t opts =
     set_OneOf (possibleTypesLoop (type_PossibleTypes t) [])
       (set_Properties Map.empty
          (set_Description (type_Description t)
             (set_Properties Map.empty (set_Type (Some (TypeString ''object'')) zeroSchema))))"
  by (simp add: processType_def Let_def set_defs fun_eq_iff)

lemma processType_UNION_fields:
  assumes "type_Kind t = ''UNION''"
  shows "Type (processType unm t opts) = Some (TypeString ''object'')"
    and "OneOf (processType unm t opts) =
           map (\<lambda>p. set_Ref (''#/definitions/'' @ type_Name p) zeroSchema) (type_PossibleTypes t)"
  using assms by (simp_all add: processType_UNION possibleTypesLoop_eq set_defs zeroSchema_def)

lemma IsValidIDTypeMapping_iff:
  "IsValidIDTypeMapping m \<longleftrightarrow> m = ''string'' \<or> m = ''number'' \<or> m = ''both''"
  by (simp add: IsValidIDTypeMapping_def)

section \<open>The claims\<close>

subsection \<open>The keys of the definitions map\<close>

text \<open>
  For every document and every options argument, the keys of \<^verbatim>\<open>definitions\<close> are the
  names of the types that survive the filter (with \<^verbatim>\<open>ignoreInternals\<close>, a type whose
  name begins with \<^verbatim>\<open>__\<close> is dropped) and that \<^verbatim>\<open>isRootType\<close> lets through. Each key is
  mapped to \<^verbatim>\<open>processType\<close> of the last surviving type of that name, which is the type
  itself when the names are distinct. The keys \<^verbatim>\<open>Query\<close> and \<^verbatim>\<open>Mutation\<close> never occur,
  and with \<^verbatim>\<open>ignoreInternals\<close> no key begins with \<^verbatim>\<open>__\<close>.
\<close>

lemma definitions_exclude_literal_roots:
  "\<exists>schema. FromIntrospectionQuery unm q opts_ptr = Inr schema \<and>
     (let opts = (case opts_ptr of None \<Rightarrow> DefaultOptions | Some given \<Rightarrow> given);
          survivors =
            filter (\<lambda>t. \<not> (IgnoreInternals opts \<and> take 2 (type_Name t) = ''__'') \<and>
                         type_Name t \<noteq> ''Query'' \<and> type_Name t \<noteq> ''Mutation'')
              (Types (query_Schema q))
      in dom (Definitions schema) = type_Name ` set survivors \<and>
         (\<forall>t \<in> set survivors.
            Definitions schema (type_Name t) =
              Some (processType unm
                      (last (filter (\<lambda>u. type_Name u = type_Name t) survivors)) opts)) \<and>
         (distinct (map type_Name survivors) \<longrightarrow>
            (\<forall>t \<in> set survivors.
               Definitions schema (type_Name t) = Some (processType unm t opts))) \<and>
         ''Query'' \<notin> dom (Definitions schema) \<and>
         ''Mutation'' \<notin> dom (Definitions schema) \<and>
         (IgnoreInternals opts \<longrightarrow>
            (\<forall>k \<in> dom (Definitions schema). take 2 k \<noteq> ''__'')))"
proof -
  define opts where "opts = (case opts_ptr of None \<Rightarrow> DefaultOptions | Some given \<Rightarrow> given)"
  define P where "P = (\<lambda>t. \<not> (IgnoreInternals opts \<and> take 2 (type_Name t) = ''__''))"
  define ts where "ts = Types (query_Schema q)"
  define survivors where
    "survivors = filter (\<lambda>t. P t \<and> type_Name t \<noteq> ''Query'' \<and> type_Name t \<noteq> ''Mutation'') ts"
  obtain schema where ret: "FromIntrospectionQuery unm q opts_ptr = Inr schema"
    and defs: "Definitions schema =
                 Definitions (definitionsLoop unm opts (filterTypes ts (IgnoreInternals opts))
                   zeroSchema)"
    using FromIntrospectionQuery_Definitions [of unm q opts_ptr]
    unfolding opts_def ts_def by blast
  have sel: "filter (\<lambda>t. type_Name t = k \<and> \<not> isRootType k) (filterTypes ts (IgnoreInternals opts))
               = filter (\<lambda>u. type_Name u = k) survivors" for k
    unfolding filterTypes_eq survivors_def P_def isRootType_def filter_filter
    by (rule filter_cong) auto
  have look: "Definitions schema k =
      (case filter (\<lambda>u. type_Name u = k) survivors of
         [] \<Rightarrow> None
       | x # xs \<Rightarrow> Some (processType unm (last (x # xs)) opts))" for k
    by (simp add: defs definitionsLoop_Definitions sel zeroSchema_def split: list.split)
  have dom_eq: "dom (Definitions schema) = type_Name ` set survivors"
  proof (rule set_eqI)
    fix k
    have "(filter (\<lambda>u. type_Name u = k) survivors \<noteq> []) = (k \<in> type_Name ` set survivors)"
      by (auto simp: filter_empty_conv)
    then show "(k \<in> dom (Definitions schema)) = (k \<in> type_Name ` set survivors)"
      by (auto simp: dom_def look split: list.splits)
  qed
  have last_wins: "Definitions schema (type_Name t) =
      Some (processType unm (last (filter (\<lambda>u. type_Name u = type_Name t) survivors)) opts)"
    if "t \<in> set survivors" for t
  proof -
    from that have "filter (\<lambda>u. type_Name u = type_Name t) survivors \<noteq> []"
      by (auto simp: filter_empty_conv)
    then show ?thesis by (simp add: look split: list.split)
  qed
  have unique: "Definitions schema (type_Name t) = Some (processType unm t opts)"
    if d: "distinct (map type_Name survivors)" and t: "t \<in> set survivors" for t
  proof -
    have "filter (\<lambda>u. type_Name u = type_Name t) survivors = [t]"
      using d t
    proof (induction survivors)
      case Nil
      then show ?case by simp
    next
      case (Cons a as)
      then show ?case by (auto simp: filter_empty_conv image_iff)
    qed
    with last_wins [OF t] show ?thesis by simp
  qed
  have noq: "''Query'' \<notin> dom (Definitions schema)" "''Mutation'' \<notin> dom (Definitions schema)"
    unfolding dom_eq survivors_def by auto
  have noint: "\<forall>k \<in> dom (Definitions schema). take 2 k \<noteq> ''__''" if "IgnoreInternals opts"
    using that unfolding dom_eq survivors_def P_def by auto
  show ?thesis
    unfolding Let_def opts_def [symmetric] ts_def [symmetric]
    using ret dom_eq last_wins unique noq noint
    unfolding survivors_def P_def by blast
qed

text \<open>
  On the document with the root \<^verbatim>\<open>Query\<close>, the internal type \<^verbatim>\<open>__Schema\<close> and the enum
  \<^verbatim>\<open>Color\<close>, converted with no options, \<^verbatim>\<open>definitions\<close> holds \<^verbatim>\<open>Color\<close> and neither of
  the other two.
\<close>

lemma definitions_exclude_literal_roots_witness:
  "definition_at ''Color'' (returned (FromIntrospectionQuery rejectAll palette_document None)) =
     Some (processType rejectAll color_enum DefaultOptions :: unit JSONSchema6) \<and>
   definition_at ''Query''
     (returned (FromIntrospectionQuery rejectAll palette_document None
        :: error + unit JSONSchema6)) = None \<and>
   definition_at ''__Schema''
     (returned (FromIntrospectionQuery rejectAll palette_document None
        :: error + unit JSONSchema6)) = None"
proof -
  have "\<exists>schema :: unit JSONSchema6.
          FromIntrospectionQuery rejectAll palette_document None = Inr schema \<and>
          dom (Definitions schema) = {''Color''} \<and>
          Definitions schema ''Color'' = Some (processType rejectAll color_enum DefaultOptions)"
    using definitions_exclude_literal_roots
            [of "rejectAll :: unit unmarshal" palette_document None]
    by (simp add: palette_document_def color_enum_def DefaultOptions_def Let_def)
      (elim exE conjE, intro exI conjI; assumption)
  then obtain schema :: "unit JSONSchema6"
    where ret: "FromIntrospectionQuery rejectAll palette_document None = Inr schema"
      and d: "dom (Definitions schema) = {''Color''}"
      and c: "Definitions schema ''Color'' = Some (processType rejectAll color_enum DefaultOptions)"
    by blast
  from d have "''Query'' \<notin> dom (Definitions schema)"
    and "''__Schema'' \<notin> dom (Definitions schema)"
    by simp_all
  then have "Definitions schema ''Query'' = None" "Definitions schema ''__Schema'' = None"
    by (simp_all only: domIff not_not)
  with c show ?thesis by (simp add: ret returned_def definition_at_def)
qed

subsection \<open>C1: the declared roots and the definitions map\<close>

text \<open>
  C1 at a document whose declared query root is the type \<^verbatim>\<open>RootQuery\<close>. The claim
  keeps the declared roots out of \<^verbatim>\<open>definitions\<close>. The code finds the root by its
  declared name and emits it under \<^verbatim>\<open>properties.Query\<close>, but the guard of the
  definitions loop, \<^verbatim>\<open>isRootType\<close>, compares with the literals \<^verbatim>\<open>Query\<close> and \<^verbatim>\<open>Mutation\<close>
  only: the same type is emitted a second time, under the key \<^verbatim>\<open>RootQuery\<close> of
  \<^verbatim>\<open>definitions\<close>.
\<close>

theorem declared_root_in_definitions:
  "QueryType (query_Schema root_document) = Some \<lparr>ref_Name = ''RootQuery''\<rparr> \<and>
   Types (query_Schema root_document) = [root_object] \<and>
   type_Name root_object = ''RootQuery'' \<and>
   property ''Query'' (returned (FromIntrospectionQuery rejectAll root_document None)) =
     Some (processType rejectAll root_object DefaultOptions :: unit JSONSchema6) \<and>
   definition_at ''RootQuery'' (returned (FromIntrospectionQuery rejectAll root_document None)) =
     Some (processType rejectAll root_object DefaultOptions :: unit JSONSchema6)"
  by (simp add: root_document_def root_object_def FromIntrospectionQuery_def filterTypes_def
      isRootType_def DefaultOptions_def returned_def definition_at_def property_def Let_def
      set_defs zeroSchema_def)

subsection \<open>C2: a non-null wrapper is transparent\<close>

text \<open>
  C2. For a reference of kind \<^verbatim>\<open>NON_NULL\<close> with an inner reference, \<^verbatim>\<open>processTypeRef\<close>
  returns exactly the node of the inner reference, whatever that reference is (a list
  of scalars in particular).
\<close>

theorem non_null_transparent:
  assumes "Kind r = ''NON_NULL''" and "OfType r = Some inner"
  shows "(processTypeRef r opts :: 'j JSONSchema6) = processTypeRef inner opts"
  using assms by (simp add: processTypeRef_unfold)

text \<open>The reference \<^verbatim>\<open>[String]!\<close> resolves to the node of \<^verbatim>\<open>[String]\<close>.\<close>

theorem non_null_transparent_witness:
  "Kind non_null_list_of_string = ''NON_NULL'' \<and>
   OfType non_null_list_of_string = Some list_of_string \<and>
   (processTypeRef non_null_list_of_string DefaultOptions :: unit JSONSchema6) =
     processTypeRef list_of_string DefaultOptions"
proof -
  have k: "Kind non_null_list_of_string = ''NON_NULL''"
    and i: "OfType non_null_list_of_string = Some list_of_string"
    by (simp_all add: non_null_list_of_string_def)
  from non_null_transparent [OF k i] k i show ?thesis by simp
qed

subsection \<open>C3: lists\<close>

text \<open>
  C3. For a reference of kind \<^verbatim>\<open>LIST\<close> with an inner reference, the node is
  \<^verbatim>\<open>{type: array, items: ...}\<close> and nothing else; \<^verbatim>\<open>items\<close> is
  \<^verbatim>\<open>{anyOf: [resolve(inner), {type: null}]}\<close> if and only if \<^verbatim>\<open>nullableArrayItems\<close> is set and
  the inner kind is not \<^verbatim>\<open>NON_NULL\<close>, and is the inner node itself otherwise.
\<close>

theorem list_items_policy:
  assumes "Kind r = ''LIST''" and "OfType r = Some inner"
  shows
    "(processTypeRef r opts :: 'j JSONSchema6) =
       set_Items
         (Some (if NullableArrayItems opts \<and> Kind inner \<noteq> ''NON_NULL''
                then set_AnyOf [processTypeRef inner opts,
                                set_Type (Some (TypeString ''null'')) zeroSchema] zeroSchema
                else processTypeRef inner opts))
         (set_Type (Some (TypeString ''array'')) zeroSchema) \<and>
     Type (processTypeRef r opts :: 'j JSONSchema6) = Some (TypeString ''array'') \<and>
     ((Items (processTypeRef r opts :: 'j JSONSchema6) =
         Some (set_AnyOf [processTypeRef inner opts,
                          set_Type (Some (TypeString ''null'')) zeroSchema] zeroSchema))
        \<longleftrightarrow> (NullableArrayItems opts \<and> Kind inner \<noteq> ''NON_NULL'')) \<and>
     ((Items (processTypeRef r opts :: 'j JSONSchema6) = Some (processTypeRef inner opts))
        \<longleftrightarrow> \<not> (NullableArrayItems opts \<and> Kind inner \<noteq> ''NON_NULL''))"
proof -
  let ?items = "processTypeRef inner opts :: 'j JSONSchema6"
  let ?wrapped =
    "set_AnyOf [?items, set_Type (Some (TypeString ''null'')) zeroSchema] zeroSchema"
  have ne: "?items \<noteq> ?wrapped"
  proof
    assume "?items = ?wrapped"
    then have "AnyOf ?items = AnyOf ?wrapped" by simp
    then have "AnyOf ?items = [?items, set_Type (Some (TypeString ''null'')) zeroSchema]"
      by (simp add: set_AnyOf_def)
    then show False using not_own_AnyOf by blast
  qed
  have eq: "(processTypeRef r opts :: 'j JSONSchema6) =
           set_Items (Some (if NullableArrayItems opts \<and> Kind inner \<noteq> ''NON_NULL''
                            then ?wrapped else ?items))
             (set_Type (Some (TypeString ''array'')) zeroSchema)"
    using assms by (simp add: processTypeRef_unfold isRequired_def)
  have ty: "Type (processTypeRef r opts :: 'j JSONSchema6) = Some (TypeString ''array'')"
    by (simp add: eq set_Items_def set_Type_def)
  have it: "Items (processTypeRef r opts :: 'j JSONSchema6) =
        Some (if NullableArrayItems opts \<and> Kind inner \<noteq> ''NON_NULL'' then ?wrapped else ?items)"
    by (simp add: eq set_Items_def)
  have w: "(Items (processTypeRef r opts :: 'j JSONSchema6) = Some ?wrapped)
         \<longleftrightarrow> (NullableArrayItems opts \<and> Kind inner \<noteq> ''NON_NULL'')"
    using ne by (auto simp: it)
  have p: "(Items (processTypeRef r opts :: 'j JSONSchema6) = Some ?items)
         \<longleftrightarrow> \<not> (NullableArrayItems opts \<and> Kind inner \<noteq> ''NON_NULL'')"
    using ne by (auto simp: it)
  from eq ty w p show ?thesis by blast
qed

text \<open>
  With \<^verbatim>\<open>nullableArrayItems\<close> set, the items of \<^verbatim>\<open>[String]\<close> are wrapped and the items of
  \<^verbatim>\<open>[String!]\<close> are not.
\<close>

theorem list_items_policy_witness:
  "Kind list_of_string = ''LIST'' \<and> OfType list_of_string = Some string_ref \<and>
   Kind list_of_non_null_string = ''LIST'' \<and>
   OfType list_of_non_null_string = Some non_null_string \<and>
   Items (processTypeRef list_of_string nullableItems :: unit JSONSchema6) =
     Some (set_AnyOf [processTypeRef string_ref nullableItems,
                      set_Type (Some (TypeString ''null'')) zeroSchema] zeroSchema) \<and>
   Items (processTypeRef list_of_non_null_string nullableItems :: unit JSONSchema6) =
     Some (processTypeRef non_null_string nullableItems)"
proof -
  have k1: "Kind list_of_string = ''LIST''" and i1: "OfType list_of_string = Some string_ref"
    by (simp_all add: list_of_string_def)
  have k2: "Kind list_of_non_null_string = ''LIST''"
    and i2: "OfType list_of_non_null_string = Some non_null_string"
    by (simp_all add: list_of_non_null_string_def)
  have c1: "NullableArrayItems nullableItems \<and> Kind string_ref \<noteq> ''NON_NULL''"
    by (simp add: nullableItems_def string_ref_def)
  have c2: "\<not> (NullableArrayItems nullableItems \<and> Kind non_null_string \<noteq> ''NON_NULL'')"
    by (simp add: non_null_string_def)
  from list_items_policy [OF k1 i1, of nullableItems, where ?'j = unit] c1
  have a: "Items (processTypeRef list_of_string nullableItems :: unit JSONSchema6) =
     Some (set_AnyOf [processTypeRef string_ref nullableItems,
                      set_Type (Some (TypeString ''null'')) zeroSchema] zeroSchema)"
    by blast
  from list_items_policy [OF k2 i2, of nullableItems, where ?'j = unit] c2
  have b: "Items (processTypeRef list_of_non_null_string nullableItems :: unit JSONSchema6) =
     Some (processTypeRef non_null_string nullableItems)"
    by blast
  from k1 i1 k2 i2 a b show ?thesis by blast
qed

subsection \<open>C4: unions\<close>

text \<open>
  C4 at a union of \<^verbatim>\<open>Book\<close> and \<^verbatim>\<open>Author\<close>. The \<^verbatim>\<open>oneOf\<close> list is as claimed, one
  \<^verbatim>\<open>$ref\<close> per possible type in order, but the node still carries \<^verbatim>\<open>type: object\<close>: the
  \<^verbatim>\<open>delete\<close> of the \<^verbatim>\<open>UNION\<close> case removes the key \<^verbatim>\<open>type\<close> from the empty \<^verbatim>\<open>Properties\<close>
  map and leaves the field \<^verbatim>\<open>Type\<close> as the base node has it.
\<close>

theorem union_keeps_type_object:
  "type_Kind search_union = ''UNION'' \<and>
   Type (processType rejectAll search_union DefaultOptions :: unit JSONSchema6)
     = Some (TypeString ''object'') \<and>
   OneOf (processType rejectAll search_union DefaultOptions :: unit JSONSchema6)
     = [set_Ref ''#/definitions/Book'' zeroSchema, set_Ref ''#/definitions/Author'' zeroSchema]"
proof -
  have k: "type_Kind search_union = ''UNION''" by (simp add: search_union_def)
  show ?thesis
    using processType_UNION_fields [OF k, of rejectAll DefaultOptions]
    by (simp add: search_union_def)
qed

subsection \<open>C5: enums\<close>

text \<open>
  C5. For a type of kind \<^verbatim>\<open>ENUM\<close> the node has type \<^verbatim>\<open>string\<close> and its \<^verbatim>\<open>anyOf\<close> list has
  one entry per enum value, in order; the entry of a value has the singleton of the
  value's name as \<^verbatim>\<open>enum\<close> and the value's description as both \<^verbatim>\<open>title\<close> and
  \<^verbatim>\<open>description\<close>, and nothing else.
\<close>

theorem enum_translation:
  assumes "type_Kind t = ''ENUM''"
  shows "Type (processType unm t opts) = Some (TypeString ''string'') \<and>
         AnyOf (processType unm t opts) =
           map (\<lambda>v. set_Description (enum_Description v)
                      (set_Title (enum_Description v) (set_Enum [enum_Name v] zeroSchema)))
             (type_EnumValues t) \<and>
         length (AnyOf (processType unm t opts)) = length (type_EnumValues t) \<and>
         (\<forall>i < length (type_EnumValues t).
            Enum (AnyOf (processType unm t opts) ! i) = [enum_Name (type_EnumValues t ! i)] \<and>
            Title (AnyOf (processType unm t opts) ! i) =
              enum_Description (type_EnumValues t ! i) \<and>
            Description (AnyOf (processType unm t opts) ! i) =
              enum_Description (type_EnumValues t ! i))"
  using assms
  by (simp add: processType_ENUM enumValuesLoop_eq set_defs zeroSchema_def)

text \<open>The enum \<^verbatim>\<open>Color\<close> with the values \<^verbatim>\<open>RED\<close> (warm) and \<^verbatim>\<open>BLUE\<close> (cold).\<close>

theorem enum_translation_witness:
  "type_Kind color_enum = ''ENUM'' \<and>
   Type (processType rejectAll color_enum DefaultOptions :: unit JSONSchema6) =
     Some (TypeString ''string'') \<and>
   AnyOf (processType rejectAll color_enum DefaultOptions :: unit JSONSchema6) =
     [JSONSchema6 [] None Map.empty None [] [] Map.empty [] [] ''warm'' ''warm'' None [''RED''],
      JSONSchema6 [] None Map.empty None [] [] Map.empty [] [] ''cold'' ''cold'' None [''BLUE'']]"
proof -
  have k: "type_Kind color_enum = ''ENUM''" by (simp add: color_enum_def)
  from enum_translation [OF k, of "rejectAll :: unit unmarshal" DefaultOptions] k
  show ?thesis by (simp add: color_enum_def set_defs zeroSchema_def)
qed

subsection \<open>C6: the ping scenario\<close>

text \<open>
  C6, as the code has it. On the scenario document with the default options, the node
  at \<^verbatim>\<open>properties.Query.properties.ping.properties.return\<close> has type \<^verbatim>\<open>boolean\<close>, the title
  \<^verbatim>\<open>Boolean\<close> and the description of the Boolean scalar, and nothing else; and
  \<^verbatim>\<open>properties.Query.required\<close> is the list of \<^verbatim>\<open>ping\<close> alone.
\<close>

theorem ping_scenario:
  \<open>property ''return'' (property ''ping'' (property ''Query''
      (returned (FromIntrospectionQuery rejectAll ping_document (Some DefaultOptions))))) =
     Some (JSONSchema6 [] (Some (TypeString ''boolean'')) Map.empty None [] [] Map.empty [] []
             ''Boolean'' ''The `Boolean` scalar type represents `true` or `false`.''
             (None :: unit option) []) \<and>
   map_option Required (property ''Query''
      (returned (FromIntrospectionQuery rejectAll ping_document (Some DefaultOptions)
         :: error + unit JSONSchema6))) =
     Some [''ping'']\<close>
  by (simp add: ping_document_def eval_defs)

text \<open>
  C6 as stated fails: the node is not the one that holds the type and the description
  only.
\<close>

theorem ping_return_has_title:
  \<open>property ''return'' (property ''ping'' (property ''Query''
      (returned (FromIntrospectionQuery rejectAll ping_document (Some DefaultOptions))))) \<noteq>
     Some (JSONSchema6 [] (Some (TypeString ''boolean'')) Map.empty None [] [] Map.empty [] []
             [] ''The `Boolean` scalar type represents `true` or `false`.''
             (None :: unit option) [])\<close>
  by (simp add: ping_document_def eval_defs)

subsection \<open>C7: malformed references\<close>

text \<open>
  C7, as the code has it. A \<^verbatim>\<open>NON_NULL\<close> wrapper with no inner reference and a leaf (a
  kind other than \<^verbatim>\<open>NON_NULL\<close> and \<^verbatim>\<open>LIST\<close>) with no name resolve to the empty node, which
  has no type and no \<^verbatim>\<open>$ref\<close>. A \<^verbatim>\<open>LIST\<close> wrapper with no inner reference resolves to the
  node \<^verbatim>\<open>{type: array}\<close>, with no \<^verbatim>\<open>$ref\<close> and no items. \<^verbatim>\<open>processTypeRef\<close> is a total
  function into nodes: it has no error to raise.
\<close>

theorem malformed_reference_nodes:
  "(Kind r = ''NON_NULL'' \<and> OfType r = None \<longrightarrow>
      (processTypeRef r opts :: 'j JSONSchema6) = zeroSchema) \<and>
   (Kind r \<noteq> ''NON_NULL'' \<and> Kind r \<noteq> ''LIST'' \<and> Name r = None \<longrightarrow>
      (processTypeRef r opts :: 'j JSONSchema6) = zeroSchema) \<and>
   (Kind r = ''LIST'' \<and> OfType r = None \<longrightarrow>
      (processTypeRef r opts :: 'j JSONSchema6) =
        set_Type (Some (TypeString ''array'')) zeroSchema) \<and>
   Type (zeroSchema :: 'j JSONSchema6) = None \<and>
   Ref (zeroSchema :: 'j JSONSchema6) = [] \<and>
   Ref (set_Type (Some (TypeString ''array'')) zeroSchema :: 'j JSONSchema6) = [] \<and>
   Items (set_Type (Some (TypeString ''array'')) zeroSchema :: 'j JSONSchema6) = None"
  by (simp add: processTypeRef_unfold set_defs zeroSchema_def)

text \<open>One reference of each of the three shapes.\<close>

theorem malformed_reference_nodes_witness:
  "(processTypeRef (IntrospectionTypeRef ''NON_NULL'' None None) DefaultOptions
      :: unit JSONSchema6) = zeroSchema \<and>
   (processTypeRef (IntrospectionTypeRef ''OBJECT'' None None) DefaultOptions
      :: unit JSONSchema6) = zeroSchema \<and>
   (processTypeRef (IntrospectionTypeRef ''SCALAR'' None None) DefaultOptions
      :: unit JSONSchema6) = zeroSchema \<and>
   (processTypeRef (IntrospectionTypeRef ''LIST'' None None) DefaultOptions
      :: unit JSONSchema6) = set_Type (Some (TypeString ''array'')) zeroSchema"
  using
    malformed_reference_nodes
      [of "IntrospectionTypeRef ''NON_NULL'' None None" DefaultOptions, where ?'j = unit]
    malformed_reference_nodes
      [of "IntrospectionTypeRef ''OBJECT'' None None" DefaultOptions, where ?'j = unit]
    malformed_reference_nodes
      [of "IntrospectionTypeRef ''SCALAR'' None None" DefaultOptions, where ?'j = unit]
    malformed_reference_nodes
      [of "IntrospectionTypeRef ''LIST'' None None" DefaultOptions, where ?'j = unit]
  by simp

text \<open>
  C7 as stated fails: the node of a \<^verbatim>\<open>LIST\<close> wrapper with no inner reference is not
  empty, it carries the type \<^verbatim>\<open>array\<close>.
\<close>

theorem list_without_inner_has_type:
  "(processTypeRef (IntrospectionTypeRef ''LIST'' None None) DefaultOptions :: unit JSONSchema6)
      \<noteq> zeroSchema \<and>
   Type (processTypeRef (IntrospectionTypeRef ''LIST'' None None) DefaultOptions
          :: unit JSONSchema6) = Some (TypeString ''array'')"
  by (simp add: set_defs zeroSchema_def)

subsection \<open>C8: an unrecognised \<^verbatim>\<open>idTypeMapping\<close>\<close>

text \<open>
  C8, as the code has it. The check is the command line's: an id-type value other than
  \<^verbatim>\<open>string\<close>, \<^verbatim>\<open>number\<close> and \<^verbatim>\<open>both\<close> is not valid, and \<^verbatim>\<open>runConversion\<close> with such a value
  returns an error and hands no schema on; once the input has been read, the error is
  \<^verbatim>\<open>invalid id-type mapping\<close> followed by the value.
\<close>

theorem cli_rejects_invalid_id_type:
  assumes "idType \<noteq> ''string''" and "idType \<noteq> ''number''" and "idType \<noteq> ''both''"
  shows "\<not> IsValidIDTypeMapping idType \<and>
         (\<exists>err. runConversion unm acquired ignoreInternals nullableArrayItems idType = Inl err) \<and>
         (\<forall>introspection. acquired = Inr introspection \<longrightarrow>
            runConversion unm acquired ignoreInternals nullableArrayItems idType =
              Inl (Error (''invalid id-type mapping: '' @ idType)))"
  using assms
  by (auto simp: runConversion_def IsValidIDTypeMapping_iff Let_def split: sum.split)

text \<open>The run on the document with the \<^verbatim>\<open>ID\<close> field and the id-type \<^verbatim>\<open>uuid\<close>.\<close>

theorem cli_rejects_invalid_id_type_witness:
  "''uuid'' \<noteq> ''string'' \<and> ''uuid'' \<noteq> ''number'' \<and> ''uuid'' \<noteq> ''both'' \<and>
   (runConversion rejectAll (Inr (Some id_document)) True False ''uuid''
      :: error + unit JSONSchema6) = Inl (Error ''invalid id-type mapping: uuid'')"
proof -
  have a: "''uuid'' \<noteq> ''string''" and b: "''uuid'' \<noteq> ''number''" and c: "''uuid'' \<noteq> ''both''"
    by simp_all
  from cli_rejects_invalid_id_type
         [OF a b c, of "rejectAll :: unit unmarshal" "Inr (Some id_document)" True False]
  show ?thesis by simp
qed

text \<open>
  C8 as stated fails: \<^verbatim>\<open>FromIntrospectionQuery\<close> called with the mapping \<^verbatim>\<open>uuid\<close>, which is
  not valid, returns a schema, in which the \<^verbatim>\<open>ID\<close> scalar has the type \<^verbatim>\<open>string\<close>.
\<close>

theorem library_accepts_invalid_id_type:
  "\<not> IsValidIDTypeMapping ''uuid'' \<and>
   map_option Type (property ''return'' (property ''id'' (property ''Query''
      (returned (FromIntrospectionQuery rejectAll id_document
         (Some \<lparr>IgnoreInternals = True, NullableArrayItems = False,
                 IDTypeMapping = ''uuid''\<rparr>)) :: unit JSONSchema6 option)))) =
     Some (Some (TypeString ''string''))"
  by (simp add: id_document_def IsValidIDTypeMapping_def eval_defs)

subsection \<open>C9: the conversion never fails\<close>

text \<open>
  C9. For every document and every options argument, \<^verbatim>\<open>FromIntrospectionQuery\<close> returns a
  schema whose \<^verbatim>\<open>$schema\<close> is the draft-06 identifier, and no error; a \<^verbatim>\<open>nil\<close> options
  argument stands for the defaults \<^verbatim>\<open>ignoreInternals = true\<close>,
  \<^verbatim>\<open>nullableArrayItems = false\<close>, \<^verbatim>\<open>idTypeMapping = string\<close>.
\<close>

theorem conversion_never_fails:
  "(\<exists>schema. FromIntrospectionQuery unm q opts_ptr = Inr schema \<and>
      Schema schema = ''http://json-schema.org/draft-06/schema#'') \<and>
   FromIntrospectionQuery unm q None = FromIntrospectionQuery unm q (Some DefaultOptions) \<and>
   DefaultOptions =
     \<lparr>IgnoreInternals = True, NullableArrayItems = False, IDTypeMapping = ''string''\<rparr>"
  by (simp add: FromIntrospectionQuery_def Let_def definitionsLoop_other DefaultOptions_def
      IDTypeDefaultMode_def IDTypeString_def set_defs zeroSchema_def
      split: option.split)

subsection \<open>C10: the title of a scalar\<close>

text \<open>
  C10. For every scalar name, built in or not, and every mapping of \<^verbatim>\<open>ID\<close>, the node of
  \<^verbatim>\<open>processScalar\<close> has the name as its title.
\<close>

theorem scalar_title: "Title (processScalar name idMapping :: 'j JSONSchema6) = name"
  by (simp add: processScalar_def Let_def set_defs zeroSchema_def)

end
